theory Spec2Isabelle
  imports Main
begin

section \<open>The streaming-transcript client (hook \<open>useTranscriptionWebSocket\<close>)\<close>

text \<open>
  The hook keeps React state (\<open>status\<close>, \<open>error\<close>, \<open>realtimeText\<close>, \<open>fullSentences\<close>,
  \<open>fullTranscript\<close>), three refs (\<open>wsRef\<close>, \<open>controlWsRef\<close>, \<open>debounceTimerRef\<close>) and
  talks to the outside through two WebSocket objects, the \<open>toast\<close> function, the optional
  callback \<open>onProcessSentence\<close> and the console. All of it is event driven and single
  threaded, so the model is a state record and one function per handler.

  Strings are lists of code units restricted to the range U+0000..U+00FF (\<^typ>\<open>char\<close>).
\<close>

subsection \<open>Data\<close>

datatype TranscriptionWSStatus = Disconnected | Connecting | Connected | Error

text \<open>The \<open>readyState\<close> of a browser WebSocket.\<close>

datatype readyState = CONNECTING | OPEN | CLOSING | CLOSED

text \<open>
  \<open>interface BackendMessage { type: string; text?: string }\<close>: the value that
  \<open>JSON.parse(event.data) as BackendMessage\<close> yields. A missing \<open>text\<close> is \<open>None\<close>. A
  value without a \<open>type\<close> behaves like one whose type is none of the three known tags.
\<close>

record BackendMessage =
  msg_type :: string
  msg_text :: "string option"

text \<open>
  Which of the two \<open>new WebSocket(...)\<close> calls of \<open>connect\<close> made a socket, and hence which
  handlers it carries: \<open>Control\<close> is \<open>ws://localhost:8011\<close>, \<open>Data\<close> is \<open>ws://localhost:8012\<close>.
\<close>

datatype role = Control | Data

text \<open>
  A socket object. Its handlers are closures created inside \<open>connect\<close> and assigned once.
  \<open>connect\<close> is a \<open>useCallback\<close> with \<open>status\<close> among its dependencies, and \<open>status\<close> is a
  \<open>const\<close> of the render, so the handlers read the value \<open>status\<close> had in the render that
  built the \<open>connect\<close> callback which created the socket, whatever \<open>setStatus\<close> did before
  or since; only \<open>onclose\<close> reads it. The socket stores that value (\<open>closure_status\<close>).
  \<open>sent\<close> lists the payloads passed to \<open>send\<close>.
\<close>

record WebSocket =
  role :: role
  readyState :: readyState
  closure_status :: TranscriptionWSStatus
  sent :: "string list"

record Toast =
  title :: string
  description :: string
  variant :: string

text \<open>
  The state of one mounted hook. \<open>sockets\<close> is the store of every socket object created
  so far; a ref holds the index of a socket (\<open>None\<close> for \<open>null\<close>). A socket that no ref
  points to any more still exists and its handlers still run.
  \<open>debounceTimerRef\<close> is \<open>None\<close> for \<open>null\<close>; a pending timer is represented by the
  \<open>trimmedText\<close> its callback closed over (the identifier that \<open>setTimeout\<close> returns is a
  positive number, so the ref is truthy exactly when it is not \<open>null\<close>).
  \<open>onProcessSentence\<close> tells whether the option was passed; \<open>onProcessSentence_calls\<close>
  lists the arguments of its calls, in order.
  \<open>toasts\<close> and \<open>console_error\<close> list the calls of \<open>toast\<close> and \<open>console.error\<close>.
\<close>

record hook_state =
  status :: TranscriptionWSStatus
  error :: "string option"
  realtimeText :: string
  fullSentences :: "string list"
  fullTranscript :: string
  wsRef :: "nat option"
  controlWsRef :: "nat option"
  debounceTimerRef :: "string option"
  sockets :: "WebSocket list"
  onProcessSentence :: bool
  onProcessSentence_calls :: "string list"
  toasts :: "Toast list"
  console_error :: "string list"

text \<open>The state after the first render: the \<open>useState\<close> and \<open>useRef\<close> initial values.\<close>

definition hook_init :: "bool \<Rightarrow> hook_state" where
  "hook_init cb =
     \<lparr>status = Disconnected, error = None, realtimeText = [], fullSentences = [],
      fullTranscript = [], wsRef = None, controlWsRef = None, debounceTimerRef = None,
      sockets = [], onProcessSentence = cb, onProcessSentence_calls = [], toasts = [],
      console_error = []\<rparr>"

subsection \<open>String built-ins\<close>

text \<open>
  \<open>String.prototype.trim\<close> strips white space and line terminators from both ends; below
  U+0100 these are TAB, LF, VT, FF, CR, SPACE and NO-BREAK SPACE.
\<close>

definition isWhiteSpace :: "char \<Rightarrow> bool" where
  "isWhiteSpace c =
     (c = CHR 0x09 \<or> c = CHR 0x0A \<or> c = CHR 0x0B \<or> c = CHR 0x0C \<or> c = CHR 0x0D \<or>
      c = CHR 0x20 \<or> c = CHR 0xA0)"

definition trim :: "string \<Rightarrow> string" where
  "trim s = rev (dropWhile isWhiteSpace (rev (dropWhile isWhiteSpace s)))"

text \<open>\<open>s.endsWith(p)\<close>.\<close>

definition endsWith :: "string \<Rightarrow> string \<Rightarrow> bool" where
  "endsWith s p = (length p \<le> length s \<and> drop (length s - length p) s = p)"

text \<open>\<open>data.text || ''\<close>: a missing and an empty text both give the empty string.\<close>

definition text_or_empty :: "BackendMessage \<Rightarrow> string" where
  "text_or_empty data = (case msg_text data of None \<Rightarrow> [] | Some t \<Rightarrow> t)"

subsection \<open>The message handler of the data socket\<close>

text \<open>
  The test \<open>trimmedText.length > 0 && ['.', '?', '!'].some(p => trimmedText.endsWith(p))\<close>.
\<close>

definition appears_complete :: "string \<Rightarrow> bool" where
  "appears_complete trimmedText =
     (length trimmedText > 0 \<and> list_ex (endsWith trimmedText) [''.'', ''?'', ''!''])"

definition is_finalized :: "BackendMessage \<Rightarrow> bool" where
  "is_finalized data = (msg_type data = ''completed'' \<or> msg_type data = ''fullSentence'')"

definition is_realtime :: "BackendMessage \<Rightarrow> bool" where
  "is_realtime data = (msg_type data = ''realtime'')"

text \<open>
  \<open>ws.onmessage\<close>. The argument is the outcome of \<open>JSON.parse(event.data)\<close>: \<open>None\<close> when
  the \<open>try\<close> block throws (the payload is not JSON, or it is \<open>null\<close> and reading
  \<open>data.type\<close> throws), which the \<open>catch\<close> logs.
\<close>

definition onmessage :: "BackendMessage option \<Rightarrow> hook_state \<Rightarrow> hook_state" where
  "onmessage parsed s =
     (case parsed of
        None \<Rightarrow>
          s\<lparr>console_error :=
               console_error s @ [''TranscriptionWebSocket: Error parsing message:'']\<rparr>
      | Some data \<Rightarrow>
          if msg_type data = ''completed'' \<or> msg_type data = ''fullSentence'' then
            let s1 = s\<lparr>debounceTimerRef := None\<rparr>;
                newSentence = text_or_empty data;
                s2 = s1\<lparr>fullSentences := fullSentences s1 @ [newSentence]\<rparr>;
                s3 = s2\<lparr>fullTranscript := fullTranscript s2 @ '' '' @ newSentence\<rparr>
            in if onProcessSentence s3 \<and> newSentence \<noteq> []
               then s3\<lparr>onProcessSentence_calls := onProcessSentence_calls s3 @ [newSentence]\<rparr>
               else s3
          else if msg_type data = ''realtime'' then
            let currentText = text_or_empty data;
                s1 = s\<lparr>realtimeText := currentText\<rparr>;
                trimmedText = trim currentText
            in if appears_complete trimmedText
               then (if debounceTimerRef s1 = None
                     then s1\<lparr>debounceTimerRef := Some trimmedText\<rparr>
                     else s1)
               else s1
          else s)"

text \<open>
  The callback given to \<open>window.setTimeout\<close>, run when the 750 ms have passed. It reads the
  \<open>trimmedText\<close> of the handler invocation that armed it. \<open>clearTimeout\<close> removes a pending
  timer, so with no timer pending nothing runs.
\<close>

definition timer_fired :: "hook_state \<Rightarrow> hook_state" where
  "timer_fired s =
     (case debounceTimerRef s of
        None \<Rightarrow> s
      | Some trimmedText \<Rightarrow>
          let s1 = (if onProcessSentence s
                    then s\<lparr>onProcessSentence_calls := onProcessSentence_calls s @ [trimmedText]\<rparr>
                    else s)
          in s1\<lparr>debounceTimerRef := None\<rparr>)"

text \<open>\<open>normalizeSentence\<close> and \<open>triggerProcessing\<close>: defined by the hook, called nowhere.\<close>

definition normalizeSentence :: "string \<Rightarrow> string" where
  "normalizeSentence sentence = (if sentence = [] then [] else trim sentence)"

definition triggerProcessing :: "string \<Rightarrow> hook_state \<Rightarrow> hook_state" where
  "triggerProcessing sentence s =
     (if onProcessSentence s
      then (let normalizedSentence = normalizeSentence sentence
            in if normalizedSentence \<noteq> []
               then s\<lparr>onProcessSentence_calls :=
                        onProcessSentence_calls s @ [normalizedSentence]\<rparr>
               else s)
      else s)"

subsection \<open>The browser's WebSocket objects\<close>

text \<open>\<open>new WebSocket(url)\<close> returns a socket in state \<open>CONNECTING\<close> that has sent nothing.\<close>

definition new_WebSocket :: "role \<Rightarrow> TranscriptionWSStatus \<Rightarrow> WebSocket" where
  "new_WebSocket r st = \<lparr>role = r, readyState = CONNECTING, closure_status = st, sent = []\<rparr>"

text \<open>\<open>ref.current && ref.current.readyState === WebSocket.OPEN\<close>.\<close>

definition ref_open :: "nat option \<Rightarrow> WebSocket list \<Rightarrow> bool" where
  "ref_open r socks =
     (case r of None \<Rightarrow> False
      | Some i \<Rightarrow> i < length socks \<and> readyState (socks ! i) = OPEN)"

definition set_readyState :: "nat \<Rightarrow> readyState \<Rightarrow> hook_state \<Rightarrow> hook_state" where
  "set_readyState i r s =
     (if i < length (sockets s)
      then s\<lparr>sockets := (sockets s)[i := (sockets s ! i)\<lparr>readyState := r\<rparr>]\<rparr>
      else s)"

text \<open>
  The method \<open>close()\<close>: nothing on a socket that is closing or closed, otherwise the
  socket becomes \<open>CLOSING\<close>. It never throws when called without arguments.
\<close>

definition ws_close :: "nat \<Rightarrow> hook_state \<Rightarrow> hook_state" where
  "ws_close i s =
     (if i < length (sockets s)
      then (if readyState (sockets s ! i) = CLOSING \<or> readyState (sockets s ! i) = CLOSED
            then s else set_readyState i CLOSING s)
      else s)"

text \<open>The method \<open>send(data)\<close> on an open socket queues the payload.\<close>

definition ws_send :: "nat \<Rightarrow> string \<Rightarrow> hook_state \<Rightarrow> hook_state" where
  "ws_send i payload s =
     (if i < length (sockets s)
      then s\<lparr>sockets := (sockets s)[i := (sockets s ! i)\<lparr>sent := sent (sockets s ! i) @ [payload]\<rparr>]\<rparr>
      else s)"

subsection \<open>\<open>sendStopCommand\<close>, \<open>connect\<close>, \<open>disconnect\<close> and the unmount cleanup\<close>

text \<open>\<open>JSON.stringify({ type: 'command', command: 'stop' })\<close>.\<close>

definition stopCommand :: string where
  "stopCommand = ''{\"type\":\"command\",\"command\":\"stop\"}''"

text \<open>
  \<open>sendStopCommand\<close>: sends only on an open control socket. The promise it returns (resolved
  after 100 ms, or at once) is the continuation \<open>cleanup_then\<close> below.
\<close>

definition sendStopCommand :: "hook_state \<Rightarrow> hook_state" where
  "sendStopCommand s =
     (if ref_open (controlWsRef s) (sockets s)
      then (case controlWsRef s of None \<Rightarrow> s | Some c \<Rightarrow> ws_send c stopCommand s)
      else s)"

definition connection_error_toast :: "string \<Rightarrow> Toast" where
  "connection_error_toast d =
     \<lparr>title = ''Connection Error'', description = d, variant = ''destructive''\<rparr>"

text \<open>
  \<open>connect\<close>. It is a \<open>useCallback\<close> that React rebuilds when \<open>status\<close> changes, and
  the \<open>status\<close> it and the handlers it installs read is the \<open>const\<close> of the render that
  built the callback being called. That value is the argument \<open>render_status\<close>: it need
  not be the current state, since \<open>setStatus\<close> only takes effect with the next render
  (after \<open>disconnect(); connect()\<close> in one turn the callback still reads the status from
  before the \<open>disconnect\<close>). The two flags say whether \<open>new WebSocket\<close> throws for the
  control and for the data endpoint (the two \<open>try\<close> blocks are nested, so a throw of the
  first skips the second).
\<close>

definition connect ::
  "TranscriptionWSStatus \<Rightarrow> bool \<Rightarrow> bool \<Rightarrow> hook_state \<Rightarrow> hook_state" where
  "connect render_status control_throws data_throws s =
     (if ref_open (wsRef s) (sockets s) then s
      else if ref_open (controlWsRef s) (sockets s) then s
      else
        let s1 = s\<lparr>status := Connecting, error := None\<rparr> in
        if control_throws then
          s1\<lparr>console_error := console_error s1 @
                 [''TranscriptionWebSocket: Error connecting to Control server:''],
             status := Error,
             error := Some ''Failed to connect to transcription control service'',
             toasts := toasts s1 @ [connection_error_toast
                 ''Failed to connect to the control server. Please try again.'']\<rparr>
        else
          let s2 = s1\<lparr>sockets := sockets s1 @ [new_WebSocket Control render_status],
                      controlWsRef := Some (length (sockets s1))\<rparr> in
          if data_throws then
            s2\<lparr>console_error := console_error s2 @
                   [''TranscriptionWebSocket: Error connecting to Data server:''],
               status := Error,
               error := Some ''Failed to connect to transcription service'',
               toasts := toasts s2 @ [connection_error_toast
                   ''Failed to connect to the data server. Please try again.'']\<rparr>
          else
            s2\<lparr>sockets := sockets s2 @ [new_WebSocket Data render_status],
               wsRef := Some (length (sockets s2))\<rparr>)"

text \<open>\<open>disconnect\<close>.\<close>

definition disconnect :: "hook_state \<Rightarrow> hook_state" where
  "disconnect s =
     (let s1 = (case controlWsRef s of None \<Rightarrow> s
                | Some c \<Rightarrow> (ws_close c s)\<lparr>controlWsRef := None\<rparr>);
          s2 = (case wsRef s1 of None \<Rightarrow> s1
                | Some d \<Rightarrow> (ws_close d s1)\<lparr>wsRef := None\<rparr>);
          s3 = s2\<lparr>debounceTimerRef := None\<rparr>
      in s3\<lparr>status := Disconnected\<rparr>)"

text \<open>
  The cleanup of the unmount effect is \<open>sendStopCommand().then(...)\<close>; \<open>cleanup_then\<close> is
  the function given to \<open>then\<close>.
\<close>

definition cleanup_then :: "hook_state \<Rightarrow> hook_state" where
  "cleanup_then s =
     (let s1 = (case controlWsRef s of None \<Rightarrow> s
                | Some c \<Rightarrow> (ws_close c s)\<lparr>controlWsRef := None\<rparr>)
      in (case wsRef s1 of None \<Rightarrow> s1
          | Some d \<Rightarrow> (ws_close d s1)\<lparr>wsRef := None\<rparr>))"

subsection \<open>The socket handlers installed by \<open>connect\<close>\<close>

text \<open>\<open>controlWs.onclose\<close> and \<open>ws.onclose\<close> have the same body; \<open>st\<close> is the closed-over \<open>status\<close>.\<close>

definition onclose :: "TranscriptionWSStatus \<Rightarrow> hook_state \<Rightarrow> hook_state" where
  "onclose st s = (if st \<noteq> Disconnected then s\<lparr>status := Disconnected\<rparr> else s)"

definition control_onerror :: "hook_state \<Rightarrow> hook_state" where
  "control_onerror s =
     s\<lparr>console_error := console_error s @ [''TranscriptionWebSocket: Control server error:''],
       status := Error,
       error := Some ''Failed to connect to transcription control service.'',
       toasts := toasts s @ [connection_error_toast
         ''Failed to connect to the transcription control service. Please try again.'']\<rparr>"

definition data_onerror :: "hook_state \<Rightarrow> hook_state" where
  "data_onerror s =
     s\<lparr>console_error := console_error s @ [''TranscriptionWebSocket: Data server error:''],
       status := Error,
       error := Some ''Failed to connect to transcription service.'',
       toasts := toasts s @ [connection_error_toast
         ''Failed to connect to the transcription service. Please try again.'']\<rparr>"

text \<open>\<open>controlWs.onopen\<close> only logs; \<open>ws.onopen\<close> sets the status.\<close>

definition data_onopen :: "hook_state \<Rightarrow> hook_state" where
  "data_onopen s = s\<lparr>status := Connected\<rparr>"

subsection \<open>Events\<close>

text \<open>
  What can happen to a mounted hook: a call of \<open>connect\<close> (with the \<open>status\<close> of the
  render that built the callback, and the two constructor outcomes) or of \<open>disconnect\<close>,
  the unmount cleanup and its continuation, an event the browser delivers to socket \<open>i\<close>, and the expiry
  of the timer. Before it calls a handler the browser sets the socket's \<open>readyState\<close>:
  \<open>OPEN\<close> for an open event, \<open>CLOSED\<close> for an error and for a close event. The control
  socket has no \<open>onmessage\<close>.
\<close>

datatype event =
    ConnectCall TranscriptionWSStatus bool bool
  | DisconnectCall
  | UnmountCleanup
  | UnmountThen
  | OpenEvent nat
  | CloseEvent nat
  | ErrorEvent nat
  | MessageEvent nat "BackendMessage option"
  | TimerExpired

fun step :: "hook_state \<Rightarrow> event \<Rightarrow> hook_state" where
  "step s (ConnectCall render_status control_throws data_throws) =
     connect render_status control_throws data_throws s"
| "step s DisconnectCall = disconnect s"
| "step s UnmountCleanup = sendStopCommand s"
| "step s UnmountThen = cleanup_then s"
| "step s (OpenEvent i) =
     (if i < length (sockets s)
      then (case role (sockets s ! i) of
              Control \<Rightarrow> set_readyState i OPEN s
            | Data \<Rightarrow> data_onopen (set_readyState i OPEN s))
      else s)"
| "step s (CloseEvent i) =
     (if i < length (sockets s)
      then onclose (closure_status (sockets s ! i)) (set_readyState i CLOSED s)
      else s)"
| "step s (ErrorEvent i) =
     (if i < length (sockets s)
      then (case role (sockets s ! i) of
              Control \<Rightarrow> control_onerror (set_readyState i CLOSED s)
            | Data \<Rightarrow> data_onerror (set_readyState i CLOSED s))
      else s)"
| "step s (MessageEvent i parsed) =
     (if i < length (sockets s)
      then (case role (sockets s ! i) of
              Control \<Rightarrow> s
            | Data \<Rightarrow> onmessage parsed s)
      else s)"
| "step s TimerExpired = timer_fired s"

definition run :: "hook_state \<Rightarrow> event list \<Rightarrow> hook_state" where
  "run s es = foldl step s es"

text \<open>Processing a list of parsed frames on the data socket, in delivery order.\<close>

definition frames :: "hook_state \<Rightarrow> BackendMessage list \<Rightarrow> hook_state" where
  "frames s ms = foldl (\<lambda>s' m. onmessage (Some m) s') s ms"

text \<open>Every ref that is set points into the store.\<close>

definition refs_valid :: "hook_state \<Rightarrow> bool" where
  "refs_valid s =
     ((case wsRef s of None \<Rightarrow> True | Some d \<Rightarrow> d < length (sockets s)) \<and>
      (case controlWsRef s of None \<Rightarrow> True | Some c \<Rightarrow> c < length (sockets s)))"

text \<open>\<open>close()\<close> has been called on the socket of a ref, or the socket is closed.\<close>

definition closing_or_closed :: "nat \<Rightarrow> WebSocket list \<Rightarrow> bool" where
  "closing_or_closed i socks =
     (i < length socks \<and> (readyState (socks ! i) = CLOSING \<or> readyState (socks ! i) = CLOSED))"

text \<open>The event hands a frame of type \<open>realtime\<close> to the message handler of a data socket.\<close>

fun delivers_realtime :: "hook_state \<Rightarrow> event \<Rightarrow> bool" where
  "delivers_realtime s (MessageEvent i (Some data)) =
     (i < length (sockets s) \<and> role (sockets s ! i) = Data \<and> is_realtime data)"
| "delivers_realtime s e = False"

text \<open>
  The first frame of a list whose trimmed text passes the completeness test: the one that
  arms the timer when the list is processed with no timer pending.
\<close>

definition arming_frame :: "BackendMessage list \<Rightarrow> BackendMessage option" where
  "arming_frame ms = find (\<lambda>m. appears_complete (trim (text_or_empty m))) ms"

section \<open>Properties\<close>

subsection \<open>The three branches of the message handler\<close>

lemma onmessage_finalized:
  "is_finalized data \<Longrightarrow>
   onmessage (Some data) s =
     s\<lparr>debounceTimerRef := None,
       fullSentences := fullSentences s @ [text_or_empty data],
       fullTranscript := fullTranscript s @ '' '' @ text_or_empty data,
       onProcessSentence_calls :=
         onProcessSentence_calls s @
           (if onProcessSentence s \<and> text_or_empty data \<noteq> [] then [text_or_empty data] else [])\<rparr>"
  by (simp add: onmessage_def is_finalized_def Let_def)

lemma onmessage_realtime:
  "is_realtime data \<Longrightarrow>
   onmessage (Some data) s =
     s\<lparr>realtimeText := text_or_empty data,
       debounceTimerRef :=
         (if appears_complete (trim (text_or_empty data)) \<and> debounceTimerRef s = None
          then Some (trim (text_or_empty data)) else debounceTimerRef s)\<rparr>"
  by (simp add: onmessage_def is_realtime_def Let_def)

lemma onmessage_unknown:
  "\<not> is_finalized data \<Longrightarrow> \<not> is_realtime data \<Longrightarrow> onmessage (Some data) s = s"
  by (simp add: onmessage_def is_realtime_def is_finalized_def)

lemma frames_Nil: "frames s [] = s"
  by (simp add: frames_def)

lemma frames_Cons: "frames s (m # ms) = frames (onmessage (Some m) s) ms"
  by (simp add: frames_def)

lemma frames_snoc: "frames s (ms @ [m]) = onmessage (Some m) (frames s ms)"
  by (simp add: frames_def)

subsection \<open>The live preview\<close>

lemma realtimeText_set_readyState: "realtimeText (set_readyState i r s) = realtimeText s"
  by (simp add: set_readyState_def)

lemma realtimeText_ws_close: "realtimeText (ws_close i s) = realtimeText s"
  by (simp add: ws_close_def realtimeText_set_readyState)

lemma realtimeText_connect: "realtimeText (connect st a b s) = realtimeText s"
  by (simp add: connect_def Let_def)

lemma realtimeText_disconnect: "realtimeText (disconnect s) = realtimeText s"
  by (simp add: disconnect_def Let_def realtimeText_ws_close split: option.splits)

lemma realtimeText_cleanup_then: "realtimeText (cleanup_then s) = realtimeText s"
  by (simp add: cleanup_then_def Let_def realtimeText_ws_close split: option.splits)

lemma realtimeText_sendStopCommand: "realtimeText (sendStopCommand s) = realtimeText s"
  by (simp add: sendStopCommand_def ws_send_def split: option.splits)

lemma realtimeText_timer_fired: "realtimeText (timer_fired s) = realtimeText s"
  by (simp add: timer_fired_def Let_def split: option.splits)

lemma realtimeText_onmessage:
  "parsed = None \<or> (\<exists>data. parsed = Some data \<and> \<not> is_realtime data) \<Longrightarrow>
   realtimeText (onmessage parsed s) = realtimeText s"
  by (auto simp: onmessage_def is_realtime_def Let_def)

text \<open>
  Claim C10. A frame of type \<open>completed\<close> or \<open>fullSentence\<close> leaves \<open>realtimeText\<close> as it
  was, in every state, so the last provisional text stays visible after the sentence is
  committed. More generally the only event that changes \<open>realtimeText\<close> is a \<open>realtime\<close>
  frame delivered to a data socket.
\<close>

theorem finalized_frame_keeps_realtimeText:
  "(is_finalized data \<longrightarrow> realtimeText (onmessage (Some data) s) = realtimeText s) \<and>
   (\<not> delivers_realtime s e \<longrightarrow> realtimeText (step s e) = realtimeText s)"
proof
  show "is_finalized data \<longrightarrow> realtimeText (onmessage (Some data) s) = realtimeText s"
    by (simp add: onmessage_finalized)
next
  show "\<not> delivers_realtime s e \<longrightarrow> realtimeText (step s e) = realtimeText s"
  proof (cases e)
    case (MessageEvent i parsed)
    then show ?thesis
      by (cases parsed; cases "role (sockets s ! i)")
         (auto simp: realtimeText_onmessage)
  qed (auto simp: realtimeText_connect realtimeText_disconnect realtimeText_cleanup_then
         realtimeText_sendStopCommand realtimeText_timer_fired realtimeText_set_readyState
         data_onopen_def onclose_def control_onerror_def data_onerror_def
         split: role.splits)
qed

theorem finalized_frame_keeps_realtimeText_witness:
  "is_finalized \<lparr>msg_type = ''fullSentence'', msg_text = Some ''I think so.''\<rparr> \<and>
   realtimeText (onmessage (Some \<lparr>msg_type = ''fullSentence'', msg_text = Some ''I think so.''\<rparr>)
     (onmessage (Some \<lparr>msg_type = ''realtime'', msg_text = Some ''I think''\<rparr>) (hook_init True)))
   = ''I think'' \<and>
   \<not> delivers_realtime (hook_init True) TimerExpired \<and>
   realtimeText (step (hook_init True) TimerExpired) = realtimeText (hook_init True)"
  using finalized_frame_keeps_realtimeText
    [of "\<lparr>msg_type = ''fullSentence'', msg_text = Some ''I think so.''\<rparr>"
        "onmessage (Some \<lparr>msg_type = ''realtime'', msg_text = Some ''I think''\<rparr>) (hook_init True)"
        TimerExpired]
    finalized_frame_keeps_realtimeText
    [of "\<lparr>msg_type = ''fullSentence'', msg_text = Some ''I think so.''\<rparr>"
        "hook_init True" TimerExpired]
  by (simp add: is_finalized_def onmessage_def text_or_empty_def Let_def hook_init_def
        trim_def isWhiteSpace_def appears_complete_def endsWith_def)

subsection \<open>Frames that are dropped\<close>

text \<open>
  Claim C8. A payload on which \<open>JSON.parse\<close> throws is caught and logged with
  \<open>console.error\<close>, and nothing else changes: status, error string, transcript, provisional
  text, pending timer, callback calls and toasts are as before. A parsed frame whose type
  is none of \<open>realtime\<close>, \<open>completed\<close>, \<open>fullSentence\<close> leaves the whole state unchanged,
  and \<open>completed\<close> and \<open>fullSentence\<close> frames are handled identically.
\<close>

theorem malformed_and_unknown_frames_dropped:
  "onmessage None s =
     s\<lparr>console_error := console_error s @ [''TranscriptionWebSocket: Error parsing message:'']\<rparr> \<and>
   status (onmessage None s) = status s \<and>
   error (onmessage None s) = error s \<and>
   fullSentences (onmessage None s) = fullSentences s \<and>
   fullTranscript (onmessage None s) = fullTranscript s \<and>
   realtimeText (onmessage None s) = realtimeText s \<and>
   debounceTimerRef (onmessage None s) = debounceTimerRef s \<and>
   onProcessSentence_calls (onmessage None s) = onProcessSentence_calls s \<and>
   toasts (onmessage None s) = toasts s \<and>
   (\<not> is_finalized data \<and> \<not> is_realtime data \<longrightarrow> onmessage (Some data) s = s) \<and>
   onmessage (Some (data\<lparr>msg_type := ''completed''\<rparr>)) s =
     onmessage (Some (data\<lparr>msg_type := ''fullSentence''\<rparr>)) s"
  by (simp add: onmessage_def is_finalized_def is_realtime_def Let_def text_or_empty_def)

theorem malformed_and_unknown_frames_dropped_witness:
  "\<not> is_finalized \<lparr>msg_type = ''partial'', msg_text = Some ''Hello.''\<rparr> \<and>
   \<not> is_realtime \<lparr>msg_type = ''partial'', msg_text = Some ''Hello.''\<rparr> \<and>
   onmessage (Some \<lparr>msg_type = ''partial'', msg_text = Some ''Hello.''\<rparr>) (hook_init True) =
     hook_init True \<and>
   status (onmessage None (hook_init True)) = Disconnected \<and>
   error (onmessage None (hook_init True)) = None"
  using malformed_and_unknown_frames_dropped
    [of "hook_init True" "\<lparr>msg_type = ''partial'', msg_text = Some ''Hello.''\<rparr>"]
  by (simp add: is_finalized_def is_realtime_def hook_init_def)

subsection \<open>The committed transcript\<close>

lemma frames_finalized_transcript:
  "list_all is_finalized ms \<Longrightarrow>
   fullTranscript (frames s ms) =
     fullTranscript s @ concat (map (\<lambda>m. '' '' @ text_or_empty m) ms)"
proof (induction ms arbitrary: s)
  case Nil
  show ?case by (simp add: frames_Nil)
next
  case (Cons m ms)
  from Cons.prems have m: "is_finalized m" and ms: "list_all is_finalized ms"
    by simp_all
  have "fullTranscript (frames s (m # ms)) =
          fullTranscript (onmessage (Some m) s) @ concat (map (\<lambda>m. '' '' @ text_or_empty m) ms)"
    using Cons.IH [OF ms] by (simp add: frames_Cons)
  then show ?case
    by (simp add: onmessage_finalized [OF m])
qed

lemma frames_finalized_sentences:
  "list_all is_finalized ms \<Longrightarrow>
   fullSentences (frames s ms) = fullSentences s @ map text_or_empty ms"
proof (induction ms arbitrary: s)
  case Nil
  show ?case by (simp add: frames_Nil)
next
  case (Cons m ms)
  then show ?case
    by (simp add: frames_Cons onmessage_finalized)
qed

text \<open>
  Claim C9. After the finalized frames \<open>ms\<close> have been processed, \<open>fullTranscript\<close> is the
  old transcript followed by, for each frame in order, one space and the frame's raw
  text; starting from the initial state it is \<open>' ' + s1 + ' ' + ... + ' ' + sn\<close>, it begins
  with a space when there is at least one frame, and \<open>fullSentences\<close> holds the raw texts.
\<close>

theorem fullTranscript_after_finalized_frames:
  assumes "list_all is_finalized ms"
  shows "fullTranscript (frames s ms) =
           fullTranscript s @ concat (map (\<lambda>m. '' '' @ text_or_empty m) ms) \<and>
         fullTranscript (frames (hook_init cb) ms) =
           concat (map (\<lambda>m. '' '' @ text_or_empty m) ms) \<and>
         (ms \<noteq> [] \<longrightarrow> hd (fullTranscript (frames (hook_init cb) ms)) = CHR '' '') \<and>
         fullSentences (frames (hook_init cb) ms) = map text_or_empty ms"
proof -
  have init: "fullTranscript (hook_init cb) = []" "fullSentences (hook_init cb) = []"
    by (simp_all add: hook_init_def)
  have a: "fullTranscript (frames (hook_init cb) ms) =
             concat (map (\<lambda>m. '' '' @ text_or_empty m) ms)"
    using frames_finalized_transcript [OF assms, of "hook_init cb"] init by simp
  have b: "ms \<noteq> [] \<longrightarrow> hd (fullTranscript (frames (hook_init cb) ms)) = CHR '' ''"
    unfolding a by (cases ms) simp_all
  show ?thesis
    using frames_finalized_transcript [OF assms, of s] a b
      frames_finalized_sentences [OF assms, of "hook_init cb"] init
    by simp
qed

theorem fullTranscript_after_finalized_frames_witness:
  "list_all is_finalized
     [\<lparr>msg_type = ''completed'', msg_text = Some ''Hi there. ''\<rparr>,
      \<lparr>msg_type = ''fullSentence'', msg_text = Some ''How are you?''\<rparr>] \<and>
   fullTranscript (frames (hook_init True)
     [\<lparr>msg_type = ''completed'', msg_text = Some ''Hi there. ''\<rparr>,
      \<lparr>msg_type = ''fullSentence'', msg_text = Some ''How are you?''\<rparr>]) =
     '' Hi there.  How are you?''"
proof -
  let ?ms = "[\<lparr>msg_type = ''completed'', msg_text = Some ''Hi there. ''\<rparr>,
              \<lparr>msg_type = ''fullSentence'', msg_text = Some ''How are you?''\<rparr>]"
  have h: "list_all is_finalized ?ms"
    by (simp add: is_finalized_def)
  have "fullTranscript (frames (hook_init True) ?ms) =
          concat (map (\<lambda>m. '' '' @ text_or_empty m) ?ms)"
    using fullTranscript_after_finalized_frames [OF h, of "hook_init True" True] by blast
  then show ?thesis
    using h by (simp add: text_or_empty_def)
qed

subsection \<open>Appending a finalized sentence\<close>

text \<open>
  Claim C4 as stated fails: the finalized branch does not trim and does not skip blank
  text. On the initial state
  with a callback registered, the text of three spaces is appended to \<open>fullSentences\<close> and
  to \<open>fullTranscript\<close> and is passed to the callback; the empty text changes
  \<open>fullSentences\<close> and \<open>fullTranscript\<close>; and a padded sentence is appended and passed on
  with its padding.
\<close>

theorem append_blank_sentence_counterexample:
  "fullSentences (onmessage (Some \<lparr>msg_type = ''completed'', msg_text = Some ''   ''\<rparr>)
     (hook_init True)) = [''   ''] \<and>
   fullTranscript (onmessage (Some \<lparr>msg_type = ''completed'', msg_text = Some ''   ''\<rparr>)
     (hook_init True)) = ''    '' \<and>
   onProcessSentence_calls (onmessage (Some \<lparr>msg_type = ''completed'', msg_text = Some ''   ''\<rparr>)
     (hook_init True)) = [''   ''] \<and>
   fullSentences (onmessage (Some \<lparr>msg_type = ''completed'', msg_text = Some []\<rparr>)
     (hook_init True)) \<noteq> fullSentences (hook_init True) \<and>
   fullTranscript (onmessage (Some \<lparr>msg_type = ''completed'', msg_text = Some []\<rparr>)
     (hook_init True)) = '' '' \<and>
   fullSentences (onmessage (Some \<lparr>msg_type = ''completed'', msg_text = Some ''  Hi. ''\<rparr>)
     (hook_init True)) = [''  Hi. ''] \<and>
   onProcessSentence_calls (onmessage (Some \<lparr>msg_type = ''completed'', msg_text = Some ''  Hi. ''\<rparr>)
     (hook_init True)) \<noteq> [trim ''  Hi. '']"
  by (simp add: onmessage_def text_or_empty_def hook_init_def Let_def trim_def isWhiteSpace_def)

text \<open>
  Claim C4, as the code has it. A finalized frame always appends its raw text (the empty
  string when \<open>text\<close> is missing) to \<open>fullSentences\<close> and one space followed by the raw
  text to \<open>fullTranscript\<close>; the callback, when registered, is called with the raw text
  exactly when that text is not the empty string.
\<close>

theorem finalized_frame_appends_raw_text:
  "is_finalized data \<Longrightarrow>
   fullSentences (onmessage (Some data) s) = fullSentences s @ [text_or_empty data] \<and>
   fullTranscript (onmessage (Some data) s) = fullTranscript s @ '' '' @ text_or_empty data \<and>
   onProcessSentence_calls (onmessage (Some data) s) =
     onProcessSentence_calls s @
       (if onProcessSentence s \<and> text_or_empty data \<noteq> [] then [text_or_empty data] else [])"
  by (simp add: onmessage_finalized)

theorem finalized_frame_appends_raw_text_witness:
  "is_finalized \<lparr>msg_type = ''completed'', msg_text = None\<rparr> \<and>
   fullSentences (onmessage (Some \<lparr>msg_type = ''completed'', msg_text = None\<rparr>) (hook_init True))
     = [[]] \<and>
   fullTranscript (onmessage (Some \<lparr>msg_type = ''completed'', msg_text = None\<rparr>) (hook_init True))
     = '' '' \<and>
   onProcessSentence_calls
     (onmessage (Some \<lparr>msg_type = ''completed'', msg_text = None\<rparr>) (hook_init True)) = []"
  using finalized_frame_appends_raw_text
    [of "\<lparr>msg_type = ''completed'', msg_text = None\<rparr>" "hook_init True"]
  by (simp add: is_finalized_def text_or_empty_def hook_init_def)

text \<open>
  The trimming variant exists only in \<open>triggerProcessing\<close>, which no handler calls and
  which does not touch the transcript.
\<close>

lemma triggerProcessing_normalizes:
  "onProcessSentence_calls (triggerProcessing sentence s) =
     onProcessSentence_calls s @
       (if onProcessSentence s \<and> trim sentence \<noteq> [] then [trim sentence] else [])"
  by (simp add: triggerProcessing_def normalizeSentence_def Let_def trim_def)

subsection \<open>The fallback timer\<close>

lemma timer_fired_pending:
  "debounceTimerRef s = Some t \<Longrightarrow>
   timer_fired s =
     s\<lparr>onProcessSentence_calls :=
         onProcessSentence_calls s @ (if onProcessSentence s then [t] else []),
       debounceTimerRef := None\<rparr>"
  by (simp add: timer_fired_def Let_def)

lemma timer_fired_idle: "debounceTimerRef s = None \<Longrightarrow> timer_fired s = s"
  by (simp add: timer_fired_def)

lemma frames_realtime_calls:
  "list_all is_realtime ms \<Longrightarrow>
   onProcessSentence_calls (frames s ms) = onProcessSentence_calls s \<and>
   onProcessSentence (frames s ms) = onProcessSentence s \<and>
   fullTranscript (frames s ms) = fullTranscript s \<and>
   fullSentences (frames s ms) = fullSentences s"
  by (induction ms arbitrary: s) (simp_all add: frames_Nil frames_Cons onmessage_realtime)

lemma frames_realtime_pending:
  "list_all is_realtime ms \<Longrightarrow> debounceTimerRef s = Some t \<Longrightarrow>
   debounceTimerRef (frames s ms) = Some t"
  by (induction ms arbitrary: s) (simp_all add: frames_Nil frames_Cons onmessage_realtime)

lemma frames_realtime_arms:
  "list_all is_realtime ms \<Longrightarrow> debounceTimerRef s = None \<Longrightarrow>
   debounceTimerRef (frames s ms) = map_option (\<lambda>m. trim (text_or_empty m)) (arming_frame ms)"
proof (induction ms arbitrary: s)
  case Nil
  then show ?case by (simp add: frames_Nil arming_frame_def)
next
  case (Cons m ms)
  from Cons.prems have m: "is_realtime m" and ms: "list_all is_realtime ms"
    by simp_all
  show ?case
  proof (cases "appears_complete (trim (text_or_empty m))")
    case True
    then have "debounceTimerRef (onmessage (Some m) s) = Some (trim (text_or_empty m))"
      using Cons.prems(2) by (simp add: onmessage_realtime [OF m])
    then have "debounceTimerRef (frames s (m # ms)) = Some (trim (text_or_empty m))"
      using frames_realtime_pending [OF ms] by (simp add: frames_Cons)
    then show ?thesis
      using True by (simp add: arming_frame_def)
  next
    case False
    then have "debounceTimerRef (onmessage (Some m) s) = None"
      using Cons.prems(2) by (simp add: onmessage_realtime [OF m])
    then have "debounceTimerRef (frames s (m # ms)) =
                 map_option (\<lambda>m. trim (text_or_empty m)) (arming_frame ms)"
      using Cons.IH [OF ms] by (simp add: frames_Cons)
    then show ?thesis
      using False by (simp add: arming_frame_def)
  qed
qed

lemma arming_frame_exists:
  "ms \<noteq> [] \<Longrightarrow> appears_complete (trim (text_or_empty (last ms))) \<Longrightarrow>
   \<exists>m. arming_frame ms = Some m"
proof -
  assume "ms \<noteq> []" and c: "appears_complete (trim (text_or_empty (last ms)))"
  then have "last ms \<in> set ms" by simp
  with c have "\<exists>m\<in>set ms. appears_complete (trim (text_or_empty m))" by blast
  then show ?thesis
    unfolding arming_frame_def by (cases "find (\<lambda>m. appears_complete (trim (text_or_empty m))) ms")
      (auto simp: find_None_iff)
qed

lemma frames_realtime_realtimeText:
  "list_all is_realtime ms \<Longrightarrow> ms \<noteq> [] \<Longrightarrow>
   realtimeText (frames s ms) = text_or_empty (last ms)"
proof (induction ms rule: rev_induct)
  case Nil
  then show ?case by simp
next
  case (snoc m ms)
  then show ?case by (simp add: frames_snoc onmessage_realtime)
qed

text \<open>
  Claim C3 as stated fails: the timer's callback closes over the \<open>trimmedText\<close> of the
  frame that armed it. With \<open>Hi.\<close> followed by \<open>Hi. How are you?\<close> the timer is armed by
  the first frame and not re-armed by the second; when it fires the provisional text is
  \<open>Hi. How are you?\<close> but the callback receives \<open>Hi.\<close>.
\<close>

theorem stale_provisional_text_counterexample:
  "onProcessSentence_calls (timer_fired (frames (hook_init True)
     [\<lparr>msg_type = ''realtime'', msg_text = Some ''Hi.''\<rparr>,
      \<lparr>msg_type = ''realtime'', msg_text = Some ''Hi. How are you?''\<rparr>])) = [''Hi.''] \<and>
   trim (realtimeText (timer_fired (frames (hook_init True)
     [\<lparr>msg_type = ''realtime'', msg_text = Some ''Hi.''\<rparr>,
      \<lparr>msg_type = ''realtime'', msg_text = Some ''Hi. How are you?''\<rparr>]))) = ''Hi. How are you?'' \<and>
   onProcessSentence_calls (timer_fired (frames (hook_init True)
     [\<lparr>msg_type = ''realtime'', msg_text = Some ''Hi.''\<rparr>,
      \<lparr>msg_type = ''realtime'', msg_text = Some ''Hi. How are you?''\<rparr>])) \<noteq> [''Hi. How are you?'']"
  by (simp add: frames_def onmessage_def timer_fired_def text_or_empty_def hook_init_def Let_def
        trim_def isWhiteSpace_def appears_complete_def endsWith_def)

text \<open>
  Claim C3, as the code has it. Let a non-empty list of \<open>realtime\<close> frames be processed
  from a state with no timer pending and a callback registered, the last frame's trimmed
  text passing the completeness test. Then some frame of the list is the first to pass the
  test, the timer is pending with that frame's trimmed text, and when it fires the callback
  is called exactly once, with that text: the text at the time the timer was armed.
  Afterwards no timer is pending and a further expiry does nothing.
\<close>

theorem fallback_timer_emits_arming_text:
  assumes "list_all is_realtime ms" and "ms \<noteq> []"
    and "appears_complete (trim (text_or_empty (last ms)))"
    and "debounceTimerRef s = None" and "onProcessSentence s"
  shows "\<exists>m. arming_frame ms = Some m \<and>
           debounceTimerRef (frames s ms) = Some (trim (text_or_empty m)) \<and>
           onProcessSentence_calls (timer_fired (frames s ms)) =
             onProcessSentence_calls s @ [trim (text_or_empty m)] \<and>
           debounceTimerRef (timer_fired (frames s ms)) = None \<and>
           timer_fired (timer_fired (frames s ms)) = timer_fired (frames s ms)"
proof -
  obtain m where m: "arming_frame ms = Some m"
    using arming_frame_exists [OF assms(2,3)] by blast
  have t: "debounceTimerRef (frames s ms) = Some (trim (text_or_empty m))"
    using frames_realtime_arms [OF assms(1,4)] m by simp
  have c: "onProcessSentence_calls (frames s ms) = onProcessSentence_calls s"
    and p: "onProcessSentence (frames s ms)"
    using frames_realtime_calls [OF assms(1), of s] assms(5) by simp_all
  have f: "onProcessSentence_calls (timer_fired (frames s ms)) =
             onProcessSentence_calls s @ [trim (text_or_empty m)]"
    and n: "debounceTimerRef (timer_fired (frames s ms)) = None"
    using c p by (simp_all add: timer_fired_pending [OF t])
  have "timer_fired (timer_fired (frames s ms)) = timer_fired (frames s ms)"
    by (rule timer_fired_idle [OF n])
  with m t f n show ?thesis by blast
qed

theorem fallback_timer_emits_arming_text_witness:
  "list_all is_realtime
     [\<lparr>msg_type = ''realtime'', msg_text = Some ''Hi.''\<rparr>,
      \<lparr>msg_type = ''realtime'', msg_text = Some ''Hi. How are you?''\<rparr>] \<and>
   appears_complete (trim (text_or_empty (last
     [\<lparr>msg_type = ''realtime'', msg_text = Some ''Hi.''\<rparr>,
      \<lparr>msg_type = ''realtime'', msg_text = Some ''Hi. How are you?''\<rparr>]))) \<and>
   debounceTimerRef (hook_init True) = None \<and> onProcessSentence (hook_init True) \<and>
   (\<exists>m. arming_frame
     [\<lparr>msg_type = ''realtime'', msg_text = Some ''Hi.''\<rparr>,
      \<lparr>msg_type = ''realtime'', msg_text = Some ''Hi. How are you?''\<rparr>] = Some m \<and>
     onProcessSentence_calls (timer_fired (frames (hook_init True)
       [\<lparr>msg_type = ''realtime'', msg_text = Some ''Hi.''\<rparr>,
        \<lparr>msg_type = ''realtime'', msg_text = Some ''Hi. How are you?''\<rparr>])) =
       onProcessSentence_calls (hook_init True) @ [trim (text_or_empty m)])"
proof -
  let ?ms = "[\<lparr>msg_type = ''realtime'', msg_text = Some ''Hi.''\<rparr>,
              \<lparr>msg_type = ''realtime'', msg_text = Some ''Hi. How are you?''\<rparr>]"
  have h1: "list_all is_realtime ?ms" by (simp add: is_realtime_def)
  have h2: "?ms \<noteq> []" by simp
  have h3: "appears_complete (trim (text_or_empty (last ?ms)))"
    by (simp add: text_or_empty_def trim_def isWhiteSpace_def appears_complete_def endsWith_def)
  have h4: "debounceTimerRef (hook_init True) = None" by (simp add: hook_init_def)
  have h5: "onProcessSentence (hook_init True)" by (simp add: hook_init_def)
  from fallback_timer_emits_arming_text [OF h1 h2 h3 h4 h5]
  have "\<exists>m. arming_frame ?ms = Some m \<and>
          onProcessSentence_calls (timer_fired (frames (hook_init True) ?ms)) =
            onProcessSentence_calls (hook_init True) @ [trim (text_or_empty m)]"
    by blast
  with h1 h3 h4 h5 show ?thesis by blast
qed

text \<open>
  Claim C2 as stated fails: on the initial state with a callback registered, after the
  \<open>realtime\<close> frame \<open>Hello there.\<close> and the expiry of the timer the callback has been called
  once with \<open>Hello there.\<close>, but \<open>fullTranscript\<close> is empty and \<open>fullSentences\<close> has no
  entry. The timer's callback calls \<open>onProcessSentence\<close> only.
\<close>

theorem hello_there_not_committed_counterexample:
  "fullTranscript (timer_fired (onmessage
     (Some \<lparr>msg_type = ''realtime'', msg_text = Some ''Hello there.''\<rparr>) (hook_init True))) = [] \<and>
   fullTranscript (timer_fired (onmessage
     (Some \<lparr>msg_type = ''realtime'', msg_text = Some ''Hello there.''\<rparr>) (hook_init True)))
     \<noteq> ''Hello there.'' \<and>
   fullSentences (timer_fired (onmessage
     (Some \<lparr>msg_type = ''realtime'', msg_text = Some ''Hello there.''\<rparr>) (hook_init True))) = [] \<and>
   onProcessSentence_calls (timer_fired (onmessage
     (Some \<lparr>msg_type = ''realtime'', msg_text = Some ''Hello there.''\<rparr>) (hook_init True)))
     = [''Hello there.'']"
  by (simp add: onmessage_def timer_fired_def text_or_empty_def hook_init_def Let_def
        trim_def isWhiteSpace_def appears_complete_def endsWith_def)

text \<open>
  Claim C2, as the code has it. If a \<open>realtime\<close> frame whose trimmed text is
  \<open>Hello there.\<close> is processed with no timer pending and a callback registered, and the
  timer then fires, the callback has been called exactly once more, with exactly
  \<open>Hello there.\<close>; \<open>fullTranscript\<close> and \<open>fullSentences\<close> are what they were before the
  frame, \<open>realtimeText\<close> is the frame's raw text, and no timer is pending.
\<close>

theorem hello_there_fallback_emission:
  assumes "is_realtime data" and "trim (text_or_empty data) = ''Hello there.''"
    and "debounceTimerRef s = None" and "onProcessSentence s"
  shows "onProcessSentence_calls (timer_fired (onmessage (Some data) s)) =
           onProcessSentence_calls s @ [''Hello there.''] \<and>
         fullTranscript (timer_fired (onmessage (Some data) s)) = fullTranscript s \<and>
         fullSentences (timer_fired (onmessage (Some data) s)) = fullSentences s \<and>
         realtimeText (timer_fired (onmessage (Some data) s)) = text_or_empty data \<and>
         debounceTimerRef (timer_fired (onmessage (Some data) s)) = None"
proof -
  have c: "appears_complete (trim (text_or_empty data))"
    unfolding assms(2) by (simp add: appears_complete_def endsWith_def)
  have m: "onmessage (Some data) s =
             s\<lparr>realtimeText := text_or_empty data, debounceTimerRef := Some ''Hello there.''\<rparr>"
    using c assms(2,3) by (simp add: onmessage_realtime [OF assms(1)])
  show ?thesis
    unfolding m using assms(4) by (simp add: timer_fired_def)
qed

theorem hello_there_fallback_emission_witness:
  "is_realtime \<lparr>msg_type = ''realtime'', msg_text = Some ''  Hello there. ''\<rparr> \<and>
   trim (text_or_empty \<lparr>msg_type = ''realtime'', msg_text = Some ''  Hello there. ''\<rparr>) =
     ''Hello there.'' \<and>
   debounceTimerRef (hook_init True) = None \<and> onProcessSentence (hook_init True) \<and>
   onProcessSentence_calls (timer_fired (onmessage
     (Some \<lparr>msg_type = ''realtime'', msg_text = Some ''  Hello there. ''\<rparr>) (hook_init True)))
     = [''Hello there.''] \<and>
   fullTranscript (timer_fired (onmessage
     (Some \<lparr>msg_type = ''realtime'', msg_text = Some ''  Hello there. ''\<rparr>) (hook_init True)))
     = []"
proof -
  let ?d = "\<lparr>msg_type = ''realtime'', msg_text = Some ''  Hello there. ''\<rparr>"
  have h1: "is_realtime ?d" by (simp add: is_realtime_def)
  have h2: "trim (text_or_empty ?d) = ''Hello there.''"
    by (simp add: text_or_empty_def trim_def isWhiteSpace_def)
  have h3: "debounceTimerRef (hook_init True) = None" by (simp add: hook_init_def)
  have h4: "onProcessSentence (hook_init True)" by (simp add: hook_init_def)
  have i: "onProcessSentence_calls (hook_init True) = []" "fullTranscript (hook_init True) = []"
    by (simp_all add: hook_init_def)
  from hello_there_fallback_emission [OF h1 h2 h3 h4] i
  have "onProcessSentence_calls (timer_fired (onmessage (Some ?d) (hook_init True))) =
          [''Hello there.''] \<and>
        fullTranscript (timer_fired (onmessage (Some ?d) (hook_init True))) = []"
    by simp
  with h1 h2 h3 h4 show ?thesis by blast
qed

text \<open>
  Claim C1 as stated fails in its second half: nothing remembers what a fired timer
  emitted. After the \<open>realtime\<close> frame \<open>Hello there.\<close> and the expiry of the timer, a
  \<open>completed\<close> frame with the same text is appended and passed to the callback, which has
  then received \<open>Hello there.\<close> twice.
\<close>

theorem duplicate_after_fired_timer_counterexample:
  "onProcessSentence_calls
     (onmessage (Some \<lparr>msg_type = ''completed'', msg_text = Some ''Hello there.''\<rparr>)
       (timer_fired (onmessage
         (Some \<lparr>msg_type = ''realtime'', msg_text = Some ''Hello there.''\<rparr>) (hook_init True))))
     = [''Hello there.'', ''Hello there.''] \<and>
   fullSentences
     (onmessage (Some \<lparr>msg_type = ''completed'', msg_text = Some ''Hello there.''\<rparr>)
       (timer_fired (onmessage
         (Some \<lparr>msg_type = ''realtime'', msg_text = Some ''Hello there.''\<rparr>) (hook_init True))))
     = [''Hello there.'']"
  by (simp add: onmessage_def timer_fired_def text_or_empty_def hook_init_def Let_def
        trim_def isWhiteSpace_def appears_complete_def endsWith_def)

text \<open>
  Claim C1, as the code has it. A finalized frame (\<open>completed\<close> or \<open>fullSentence\<close>)
  cancels the pending timer before it can fire: afterwards no timer is pending, an expiry
  does nothing, and the frame itself has caused at most one call of the callback, with its
  own text. There is no removal of duplicates: when the timer has already fired with text
  \<open>t\<close>, a later finalized frame with a non-empty text (the same text included) is emitted
  as well, so the callback receives \<open>t\<close> and then the frame's text.
\<close>

theorem finalized_frame_cancels_timer:
  assumes "is_finalized data"
  shows "debounceTimerRef (onmessage (Some data) s) = None \<and>
         timer_fired (onmessage (Some data) s) = onmessage (Some data) s \<and>
         onProcessSentence_calls (onmessage (Some data) s) =
           onProcessSentence_calls s @
             (if onProcessSentence s \<and> text_or_empty data \<noteq> [] then [text_or_empty data] else []) \<and>
         (debounceTimerRef s = Some t \<and> onProcessSentence s \<and> text_or_empty data \<noteq> [] \<longrightarrow>
            onProcessSentence_calls (onmessage (Some data) (timer_fired s)) =
              onProcessSentence_calls s @ [t, text_or_empty data])"
proof -
  have n: "debounceTimerRef (onmessage (Some data) s) = None"
    by (simp add: onmessage_finalized [OF assms])
  have f: "timer_fired (onmessage (Some data) s) = onmessage (Some data) s"
    by (rule timer_fired_idle [OF n])
  have c: "onProcessSentence_calls (onmessage (Some data) s) =
             onProcessSentence_calls s @
               (if onProcessSentence s \<and> text_or_empty data \<noteq> [] then [text_or_empty data] else [])"
    by (simp add: onmessage_finalized [OF assms])
  have d: "debounceTimerRef s = Some t \<and> onProcessSentence s \<and> text_or_empty data \<noteq> [] \<longrightarrow>
             onProcessSentence_calls (onmessage (Some data) (timer_fired s)) =
               onProcessSentence_calls s @ [t, text_or_empty data]"
    by (simp add: onmessage_finalized [OF assms] timer_fired_def Let_def)
  from n f c d show ?thesis by blast
qed

theorem finalized_frame_cancels_timer_witness:
  "is_finalized \<lparr>msg_type = ''fullSentence'', msg_text = Some ''I think so.''\<rparr> \<and>
   debounceTimerRef (onmessage
     (Some \<lparr>msg_type = ''realtime'', msg_text = Some ''I think.''\<rparr>) (hook_init True)) =
     Some ''I think.'' \<and>
   onProcessSentence (onmessage
     (Some \<lparr>msg_type = ''realtime'', msg_text = Some ''I think.''\<rparr>) (hook_init True)) \<and>
   text_or_empty \<lparr>msg_type = ''fullSentence'', msg_text = Some ''I think so.''\<rparr> \<noteq> [] \<and>
   debounceTimerRef (onmessage
     (Some \<lparr>msg_type = ''fullSentence'', msg_text = Some ''I think so.''\<rparr>)
     (onmessage (Some \<lparr>msg_type = ''realtime'', msg_text = Some ''I think.''\<rparr>) (hook_init True)))
     = None \<and>
   onProcessSentence_calls (onmessage
     (Some \<lparr>msg_type = ''fullSentence'', msg_text = Some ''I think so.''\<rparr>)
     (onmessage (Some \<lparr>msg_type = ''realtime'', msg_text = Some ''I think.''\<rparr>) (hook_init True)))
     = [''I think so.''] \<and>
   onProcessSentence_calls (onmessage
     (Some \<lparr>msg_type = ''fullSentence'', msg_text = Some ''I think so.''\<rparr>)
     (timer_fired
       (onmessage (Some \<lparr>msg_type = ''realtime'', msg_text = Some ''I think.''\<rparr>) (hook_init True))))
     = [''I think.'', ''I think so.'']"
proof -
  let ?d = "\<lparr>msg_type = ''fullSentence'', msg_text = Some ''I think so.''\<rparr>"
  let ?s = "onmessage (Some \<lparr>msg_type = ''realtime'', msg_text = Some ''I think.''\<rparr>) (hook_init True)"
  have h1: "is_finalized ?d" by (simp add: is_finalized_def)
  have h2: "debounceTimerRef ?s = Some ''I think.''"
    by (simp add: onmessage_def text_or_empty_def hook_init_def Let_def
          trim_def isWhiteSpace_def appears_complete_def endsWith_def)
  have h3: "onProcessSentence ?s"
    by (simp add: onmessage_def hook_init_def Let_def)
  have h4: "text_or_empty ?d \<noteq> []" by (simp add: text_or_empty_def)
  have h5: "onProcessSentence_calls ?s = []"
    by (simp add: onmessage_def hook_init_def Let_def)
  have t: "text_or_empty ?d = ''I think so.''" by (simp add: text_or_empty_def)
  from finalized_frame_cancels_timer [OF h1, of ?s "''I think.''"] h2 h3 h4 h5
  have "debounceTimerRef (onmessage (Some ?d) ?s) = None \<and>
        onProcessSentence_calls (onmessage (Some ?d) ?s) = [''I think so.''] \<and>
        onProcessSentence_calls (onmessage (Some ?d) (timer_fired ?s)) =
          [''I think.'', ''I think so.'']"
    unfolding t by simp
  with h1 h2 h3 h4 show ?thesis by blast
qed

subsection \<open>Connection handles\<close>

lemma refs_valid_iff:
  "refs_valid s \<longleftrightarrow>
     (\<forall>d. wsRef s = Some d \<longrightarrow> d < length (sockets s)) \<and>
     (\<forall>c. controlWsRef s = Some c \<longrightarrow> c < length (sockets s))"
  by (auto simp: refs_valid_def split: option.splits)

lemma refs_valid_init: "refs_valid (hook_init cb)"
  by (simp add: refs_valid_iff hook_init_def)

lemma length_set_readyState: "length (sockets (set_readyState i r s)) = length (sockets s)"
  by (simp add: set_readyState_def)

lemma length_ws_close: "length (sockets (ws_close i s)) = length (sockets s)"
  by (simp add: ws_close_def length_set_readyState)

lemma refs_set_readyState:
  "wsRef (set_readyState i r s) = wsRef s" "controlWsRef (set_readyState i r s) = controlWsRef s"
  by (simp_all add: set_readyState_def)

lemma refs_ws_close:
  "wsRef (ws_close i s) = wsRef s" "controlWsRef (ws_close i s) = controlWsRef s"
  by (simp_all add: ws_close_def refs_set_readyState)

lemma refs_valid_connect: "refs_valid s \<Longrightarrow> refs_valid (connect st a b s)"
  by (auto simp: refs_valid_iff connect_def Let_def less_Suc_eq)

lemma refs_valid_disconnect: "refs_valid (disconnect s)"
  by (simp add: refs_valid_iff disconnect_def Let_def refs_ws_close split: option.splits)

lemma refs_valid_cleanup_then: "refs_valid (cleanup_then s)"
  by (simp add: refs_valid_iff cleanup_then_def Let_def refs_ws_close split: option.splits)

lemma refs_valid_sendStopCommand: "refs_valid s \<Longrightarrow> refs_valid (sendStopCommand s)"
  by (auto simp: refs_valid_iff sendStopCommand_def ws_send_def split: option.splits)

lemma refs_valid_set_readyState: "refs_valid s \<Longrightarrow> refs_valid (set_readyState i r s)"
  by (simp add: refs_valid_iff refs_set_readyState length_set_readyState)

lemma refs_valid_onmessage: "refs_valid s \<Longrightarrow> refs_valid (onmessage parsed s)"
  by (auto simp: refs_valid_iff onmessage_def Let_def split: option.splits)

lemma refs_valid_timer_fired: "refs_valid s \<Longrightarrow> refs_valid (timer_fired s)"
  by (auto simp: refs_valid_iff timer_fired_def Let_def split: option.splits)

lemma refs_valid_step: "refs_valid s \<Longrightarrow> refs_valid (step s e)"
proof (cases e)
  case (OpenEvent i)
  assume "refs_valid s"
  then have "refs_valid (set_readyState i OPEN s)" by (rule refs_valid_set_readyState)
  then show ?thesis
    using \<open>refs_valid s\<close> OpenEvent by (simp add: refs_valid_iff data_onopen_def split: role.splits)
next
  case (CloseEvent i)
  assume "refs_valid s"
  then have "refs_valid (set_readyState i CLOSED s)" by (rule refs_valid_set_readyState)
  then show ?thesis
    using \<open>refs_valid s\<close> CloseEvent by (simp add: refs_valid_iff onclose_def)
next
  case (ErrorEvent i)
  assume "refs_valid s"
  then have "refs_valid (set_readyState i CLOSED s)" by (rule refs_valid_set_readyState)
  then show ?thesis
    using \<open>refs_valid s\<close> ErrorEvent
    by (simp add: refs_valid_iff control_onerror_def data_onerror_def split: role.splits)
qed (simp_all add: refs_valid_connect refs_valid_disconnect refs_valid_cleanup_then
       refs_valid_sendStopCommand refs_valid_onmessage refs_valid_timer_fired split: role.splits)

lemma refs_valid_run: "refs_valid s \<Longrightarrow> refs_valid (run s es)"
  unfolding run_def by (induction es arbitrary: s) (simp_all add: refs_valid_step)

lemma disconnect_refs_cleared: "wsRef (disconnect s) = None \<and> controlWsRef (disconnect s) = None"
  by (simp add: disconnect_def Let_def refs_ws_close split: option.splits)

subsection \<open>\<open>connect\<close>\<close>

lemma connect_guarded:
  "ref_open (wsRef s) (sockets s) \<or> ref_open (controlWsRef s) (sockets s) \<Longrightarrow>
   connect st a b s = s"
  by (auto simp: connect_def)

lemma connect_opens:
  "\<not> ref_open (wsRef s) (sockets s) \<Longrightarrow> \<not> ref_open (controlWsRef s) (sockets s) \<Longrightarrow>
   connect st False False s =
     s\<lparr>status := Connecting, error := None,
       sockets := sockets s @ [new_WebSocket Control st, new_WebSocket Data st],
       controlWsRef := Some (length (sockets s)),
       wsRef := Some (Suc (length (sockets s)))\<rparr>"
  by (simp add: connect_def Let_def)

text \<open>
  Claim C6 as stated fails for a client that is connecting: the guards of \<open>connect\<close> test
  \<open>readyState === WebSocket.OPEN\<close> only. After a first \<open>connect\<close> the status is
  \<open>connecting\<close> and both sockets are \<open>CONNECTING\<close>; a second \<open>connect\<close> creates two more
  sockets and replaces both handles, whether it is the callback of the next render (which
  reads \<open>status = 'connecting'\<close>) or, in the same turn, the callback of the first render.
\<close>

theorem connect_while_connecting_counterexample:
  "status (connect Disconnected False False (hook_init True)) = Connecting \<and>
   length (sockets (connect Disconnected False False (hook_init True))) = 2 \<and>
   controlWsRef (connect Disconnected False False (hook_init True)) = Some 0 \<and>
   wsRef (connect Disconnected False False (hook_init True)) = Some 1 \<and>
   length (sockets (connect Connecting False False
     (connect Disconnected False False (hook_init True)))) = 4 \<and>
   controlWsRef (connect Connecting False False
     (connect Disconnected False False (hook_init True))) = Some 2 \<and>
   wsRef (connect Connecting False False
     (connect Disconnected False False (hook_init True))) = Some 3 \<and>
   connect Connecting False False (connect Disconnected False False (hook_init True)) \<noteq>
     connect Disconnected False False (hook_init True) \<and>
   length (sockets (connect Disconnected False False
     (connect Disconnected False False (hook_init True)))) = 4 \<and>
   wsRef (connect Disconnected False False
     (connect Disconnected False False (hook_init True))) = Some 3"
proof -
  let ?s1 = "connect Disconnected False False (hook_init True)"
  have a: "?s1 =
          (hook_init True)\<lparr>status := Connecting, error := None,
             sockets := [new_WebSocket Control Disconnected, new_WebSocket Data Disconnected],
             controlWsRef := Some 0, wsRef := Some 1\<rparr>"
    by (simp add: connect_def hook_init_def ref_open_def Let_def)
  have b: "wsRef (connect Connecting False False ?s1) = Some 3"
    "controlWsRef (connect Connecting False False ?s1) = Some 2"
    "length (sockets (connect Connecting False False ?s1)) = 4"
    "wsRef (connect Disconnected False False ?s1) = Some 3"
    "length (sockets (connect Disconnected False False ?s1)) = 4"
    unfolding a by (simp_all add: connect_def ref_open_def new_WebSocket_def Let_def)
  have c: "wsRef ?s1 = Some 1" "controlWsRef ?s1 = Some 0" "length (sockets ?s1) = 2"
    "status ?s1 = Connecting"
    unfolding a by simp_all
  have "connect Connecting False False ?s1 \<noteq> ?s1"
  proof
    assume "connect Connecting False False ?s1 = ?s1"
    then have "wsRef (connect Connecting False False ?s1) = wsRef ?s1"
      by simp
    with b(1) c(1) show False by simp
  qed
  with b c show ?thesis by simp
qed

text \<open>
  Claim C6, as the code has it. \<open>connect\<close> is a no-op, whatever the status, when the
  socket of \<open>wsRef\<close> or the socket of \<open>controlWsRef\<close> is \<open>OPEN\<close>: the state is unchanged, so
  no socket is created and both handles and the status stay. Otherwise (in particular
  while both sockets are still \<open>CONNECTING\<close>), and when neither constructor throws, it
  sets the status to \<open>connecting\<close>, clears the error, creates the control socket first and
  the data socket second, and stores them in the two handles. The handlers of both new
  sockets close over the \<open>status\<close> of the render that built the callback
  (\<open>render_status\<close>), whatever the current status is.
\<close>

theorem connect_noop_iff_socket_open:
  "(ref_open (wsRef s) (sockets s) \<or> ref_open (controlWsRef s) (sockets s) \<longrightarrow>
      connect render_status control_throws data_throws s = s) \<and>
   (\<not> ref_open (wsRef s) (sockets s) \<and> \<not> ref_open (controlWsRef s) (sockets s) \<longrightarrow>
      sockets (connect render_status False False s) =
        sockets s @ [new_WebSocket Control render_status, new_WebSocket Data render_status] \<and>
      controlWsRef (connect render_status False False s) = Some (length (sockets s)) \<and>
      wsRef (connect render_status False False s) = Some (Suc (length (sockets s))) \<and>
      status (connect render_status False False s) = Connecting \<and>
      error (connect render_status False False s) = None)"
proof -
  have "\<not> ref_open (wsRef s) (sockets s) \<and> \<not> ref_open (controlWsRef s) (sockets s) \<longrightarrow>
      sockets (connect render_status False False s) =
        sockets s @ [new_WebSocket Control render_status, new_WebSocket Data render_status] \<and>
      controlWsRef (connect render_status False False s) = Some (length (sockets s)) \<and>
      wsRef (connect render_status False False s) = Some (Suc (length (sockets s))) \<and>
      status (connect render_status False False s) = Connecting \<and>
      error (connect render_status False False s) = None"
    by (simp add: connect_opens)
  then show ?thesis
    using connect_guarded [of s render_status control_throws data_throws] by blast
qed

theorem connect_noop_iff_socket_open_witness:
  "ref_open
     (wsRef (run (hook_init True) [ConnectCall Disconnected False False, OpenEvent 0, OpenEvent 1]))
     (sockets (run (hook_init True) [ConnectCall Disconnected False False, OpenEvent 0, OpenEvent 1])) \<and>
   connect Connected False False
     (run (hook_init True) [ConnectCall Disconnected False False, OpenEvent 0, OpenEvent 1]) =
     run (hook_init True) [ConnectCall Disconnected False False, OpenEvent 0, OpenEvent 1] \<and>
   \<not> ref_open (wsRef (disconnect (run (hook_init True)
       [ConnectCall Disconnected False False, OpenEvent 0, OpenEvent 1])))
     (sockets (disconnect (run (hook_init True)
       [ConnectCall Disconnected False False, OpenEvent 0, OpenEvent 1]))) \<and>
   \<not> ref_open (controlWsRef (disconnect (run (hook_init True)
       [ConnectCall Disconnected False False, OpenEvent 0, OpenEvent 1])))
     (sockets (disconnect (run (hook_init True)
       [ConnectCall Disconnected False False, OpenEvent 0, OpenEvent 1]))) \<and>
   map closure_status (sockets (connect Connected False False (disconnect (run (hook_init True)
       [ConnectCall Disconnected False False, OpenEvent 0, OpenEvent 1])))) =
     [Disconnected, Disconnected, Connected, Connected] \<and>
   controlWsRef (connect Connected False False (disconnect (run (hook_init True)
       [ConnectCall Disconnected False False, OpenEvent 0, OpenEvent 1]))) = Some 2 \<and>
   wsRef (connect Connected False False (disconnect (run (hook_init True)
       [ConnectCall Disconnected False False, OpenEvent 0, OpenEvent 1]))) = Some 3 \<and>
   status (connect Connected False False (disconnect (run (hook_init True)
       [ConnectCall Disconnected False False, OpenEvent 0, OpenEvent 1]))) = Connecting"
proof -
  let ?s = "run (hook_init True) [ConnectCall Disconnected False False, OpenEvent 0, OpenEvent 1]"
  let ?d = "disconnect ?s"
  have h1: "ref_open (wsRef ?s) (sockets ?s)"
    by (simp add: run_def hook_init_def connect_def ref_open_def new_WebSocket_def
          set_readyState_def data_onopen_def Let_def)
  have r: "wsRef ?d = None" "controlWsRef ?d = None"
    using disconnect_refs_cleared [of ?s] by simp_all
  have h2: "\<not> ref_open (wsRef ?d) (sockets ?d)" "\<not> ref_open (controlWsRef ?d) (sockets ?d)"
    unfolding r by (simp_all add: ref_open_def)
  have m: "map closure_status (sockets ?d) = [Disconnected, Disconnected]"
    by (simp add: run_def hook_init_def connect_def ref_open_def new_WebSocket_def
          set_readyState_def data_onopen_def disconnect_def ws_close_def Let_def)
  then have l: "length (sockets ?d) = 2"
    using length_map [of closure_status "sockets ?d"] by simp
  from connect_noop_iff_socket_open [of ?s Connected False False] h1
  have a: "connect Connected False False ?s = ?s" by blast
  from connect_noop_iff_socket_open [of ?d Connected False False] h2
  have "sockets (connect Connected False False ?d) =
          sockets ?d @ [new_WebSocket Control Connected, new_WebSocket Data Connected] \<and>
        controlWsRef (connect Connected False False ?d) = Some (length (sockets ?d)) \<and>
        wsRef (connect Connected False False ?d) = Some (Suc (length (sockets ?d))) \<and>
        status (connect Connected False False ?d) = Connecting"
    by blast
  then have b: "map closure_status (sockets (connect Connected False False ?d)) =
             [Disconnected, Disconnected, Connected, Connected] \<and>
           controlWsRef (connect Connected False False ?d) = Some 2 \<and>
           wsRef (connect Connected False False ?d) = Some 3 \<and>
           status (connect Connected False False ?d) = Connecting"
    using m l by (simp add: new_WebSocket_def)
  from h1 h2 a b show ?thesis by blast
qed

subsection \<open>\<open>disconnect\<close> and the unmount cleanup\<close>

lemma sent_set_readyState: "map sent (sockets (set_readyState i r s)) = map sent (sockets s)"
  by (simp add: set_readyState_def map_update list_update_same_conv)

lemma sent_ws_close: "map sent (sockets (ws_close i s)) = map sent (sockets s)"
  by (simp add: ws_close_def sent_set_readyState)

lemma ws_close_closes:
  "i < length (sockets s) \<Longrightarrow> closing_or_closed i (sockets (ws_close i s))"
  by (simp add: ws_close_def set_readyState_def closing_or_closed_def)

lemma ws_close_keeps_closed:
  "closing_or_closed j (sockets s) \<Longrightarrow> closing_or_closed j (sockets (ws_close i s))"
  by (auto simp: ws_close_def set_readyState_def closing_or_closed_def nth_list_update)

lemma ws_close_other_fields:
  "status (ws_close i s) = status s" "error (ws_close i s) = error s"
  "toasts (ws_close i s) = toasts s" "console_error (ws_close i s) = console_error s"
  "debounceTimerRef (ws_close i s) = debounceTimerRef s"
  by (simp_all add: ws_close_def set_readyState_def)

lemma disconnect_refs:
  "controlWsRef (disconnect s) = None \<and> wsRef (disconnect s) = None \<and>
   debounceTimerRef (disconnect s) = None \<and> status (disconnect s) = Disconnected"
  by (simp add: disconnect_def Let_def refs_ws_close split: option.splits)

lemma disconnect_sockets:
  "sockets (disconnect s) =
     (case wsRef s of
        None \<Rightarrow> (case controlWsRef s of None \<Rightarrow> sockets s | Some c \<Rightarrow> sockets (ws_close c s))
      | Some d \<Rightarrow>
          (case controlWsRef s of None \<Rightarrow> sockets (ws_close d s)
           | Some c \<Rightarrow> sockets (ws_close d ((ws_close c s)\<lparr>controlWsRef := None\<rparr>))))"
  by (simp add: disconnect_def Let_def refs_ws_close split: option.splits)

lemma sockets_ws_close_upd:
  "sockets (ws_close d (s\<lparr>controlWsRef := r\<rparr>)) = sockets (ws_close d s)"
  by (simp add: ws_close_def set_readyState_def)

lemma disconnect_sent: "map sent (sockets (disconnect s)) = map sent (sockets s)"
  by (simp add: disconnect_sockets sockets_ws_close_upd sent_ws_close split: option.splits)

lemma disconnect_quiet:
  "error (disconnect s) = error s \<and> toasts (disconnect s) = toasts s \<and>
   console_error (disconnect s) = console_error s"
  by (simp add: disconnect_def Let_def ws_close_other_fields split: option.splits)

lemma disconnect_closes_control:
  "controlWsRef s = Some c \<Longrightarrow> c < length (sockets s) \<Longrightarrow>
   closing_or_closed c (sockets (disconnect s))"
  by (simp add: disconnect_sockets sockets_ws_close_upd ws_close_closes ws_close_keeps_closed
        split: option.splits)

lemma disconnect_closes_data:
  "wsRef s = Some d \<Longrightarrow> d < length (sockets s) \<Longrightarrow>
   closing_or_closed d (sockets (disconnect s))"
  by (simp add: disconnect_sockets sockets_ws_close_upd ws_close_closes length_ws_close
        split: option.splits)

lemma disconnect_fixpoint:
  "controlWsRef s = None \<Longrightarrow> wsRef s = None \<Longrightarrow> debounceTimerRef s = None \<Longrightarrow>
   status s = Disconnected \<Longrightarrow> disconnect s = s"
  by (simp add: disconnect_def)

lemma sendStopCommand_sends:
  "controlWsRef s = Some c \<Longrightarrow> ref_open (controlWsRef s) (sockets s) \<Longrightarrow>
   sent (sockets (sendStopCommand s) ! c) = sent (sockets s ! c) @ [stopCommand] \<and>
   readyState (sockets (sendStopCommand s) ! c) = OPEN"
  by (simp add: sendStopCommand_def ws_send_def ref_open_def)

lemma sendStopCommand_skips:
  "\<not> ref_open (controlWsRef s) (sockets s) \<Longrightarrow> sendStopCommand s = s"
  by (simp add: sendStopCommand_def)

lemma sendStopCommand_quiet:
  "error (sendStopCommand s) = error s \<and> toasts (sendStopCommand s) = toasts s \<and>
   console_error (sendStopCommand s) = console_error s \<and> status (sendStopCommand s) = status s"
  by (simp add: sendStopCommand_def ws_send_def split: option.splits)

text \<open>
  Claim C5 as stated fails: \<open>disconnect\<close> never calls \<open>sendStopCommand\<close>. With both sockets
  open, so that the command could be sent, \<open>disconnect\<close> leaves both sockets \<open>CLOSING\<close>
  and neither has sent anything.
\<close>

theorem disconnect_sends_no_stop_counterexample:
  "ref_open (controlWsRef (run (hook_init True) [ConnectCall Disconnected False False, OpenEvent 0, OpenEvent 1]))
     (sockets (run (hook_init True) [ConnectCall Disconnected False False, OpenEvent 0, OpenEvent 1])) \<and>
   map sent (sockets (disconnect
     (run (hook_init True) [ConnectCall Disconnected False False, OpenEvent 0, OpenEvent 1]))) = [[], []] \<and>
   map readyState (sockets (disconnect
     (run (hook_init True) [ConnectCall Disconnected False False, OpenEvent 0, OpenEvent 1]))) =
     [CLOSING, CLOSING]"
  by (simp add: run_def hook_init_def connect_def ref_open_def new_WebSocket_def
        set_readyState_def data_onopen_def disconnect_def ws_close_def Let_def)

text \<open>
  Claim C5, as the code has it. In every state (whose handles point to sockets of the
  store) \<open>disconnect\<close> calls \<open>close()\<close> on the control and on the data socket and clears
  both handles, cancels the pending timer (a later expiry does nothing), sets the status
  to \<open>disconnected\<close>, sends nothing on any socket, reports no error (error string, toasts
  and \<open>console.error\<close> as before), and a second call changes nothing. The stop command is
  sent by \<open>sendStopCommand\<close>, which only the unmount cleanup calls: when the control socket
  is \<open>OPEN\<close> it sends \<open>{"type":"command","command":"stop"}\<close> on it, before the
  continuation closes the socket; otherwise it does nothing; in both cases silently.
\<close>

theorem disconnect_closes_without_stop_command:
  assumes "refs_valid s"
  shows "controlWsRef (disconnect s) = None \<and> wsRef (disconnect s) = None \<and>
         (case controlWsRef s of None \<Rightarrow> True
          | Some c \<Rightarrow> closing_or_closed c (sockets (disconnect s))) \<and>
         (case wsRef s of None \<Rightarrow> True
          | Some d \<Rightarrow> closing_or_closed d (sockets (disconnect s))) \<and>
         debounceTimerRef (disconnect s) = None \<and>
         timer_fired (disconnect s) = disconnect s \<and>
         status (disconnect s) = Disconnected \<and>
         map sent (sockets (disconnect s)) = map sent (sockets s) \<and>
         error (disconnect s) = error s \<and> toasts (disconnect s) = toasts s \<and>
         console_error (disconnect s) = console_error s \<and>
         disconnect (disconnect s) = disconnect s \<and>
         (case controlWsRef s of None \<Rightarrow> sendStopCommand s = s
          | Some c \<Rightarrow>
              if readyState (sockets s ! c) = OPEN
              then sent (sockets (sendStopCommand s) ! c) = sent (sockets s ! c) @ [stopCommand] \<and>
                   readyState (sockets (sendStopCommand s) ! c) = OPEN \<and>
                   closing_or_closed c (sockets (cleanup_then (sendStopCommand s)))
              else sendStopCommand s = s) \<and>
         error (sendStopCommand s) = error s \<and> toasts (sendStopCommand s) = toasts s \<and>
         console_error (sendStopCommand s) = console_error s"
proof -
  note r = disconnect_refs [of s]
  have cc: "case controlWsRef s of None \<Rightarrow> True
            | Some c \<Rightarrow> closing_or_closed c (sockets (disconnect s))"
    using assms by (auto simp: refs_valid_iff disconnect_closes_control split: option.splits)
  have cd: "case wsRef s of None \<Rightarrow> True
            | Some d \<Rightarrow> closing_or_closed d (sockets (disconnect s))"
    using assms by (auto simp: refs_valid_iff disconnect_closes_data split: option.splits)
  have tf: "timer_fired (disconnect s) = disconnect s"
    using r by (simp add: timer_fired_idle)
  have idem: "disconnect (disconnect s) = disconnect s"
    using r by (simp add: disconnect_fixpoint)
  have stop: "case controlWsRef s of None \<Rightarrow> sendStopCommand s = s
          | Some c \<Rightarrow>
              if readyState (sockets s ! c) = OPEN
              then sent (sockets (sendStopCommand s) ! c) = sent (sockets s ! c) @ [stopCommand] \<and>
                   readyState (sockets (sendStopCommand s) ! c) = OPEN \<and>
                   closing_or_closed c (sockets (cleanup_then (sendStopCommand s)))
              else sendStopCommand s = s"
  proof (cases "controlWsRef s")
    case None
    then show ?thesis by (simp add: sendStopCommand_def ref_open_def)
  next
    case (Some c)
    with assms have c: "c < length (sockets s)" by (simp add: refs_valid_iff)
    show ?thesis
    proof (cases "readyState (sockets s ! c) = OPEN")
      case True
      with Some c have o: "ref_open (controlWsRef s) (sockets s)" by (simp add: ref_open_def)
      have l: "c < length (sockets (sendStopCommand s))"
        and k: "controlWsRef (sendStopCommand s) = Some c"
        using Some c by (simp_all add: sendStopCommand_def ws_send_def)
      have "closing_or_closed c (sockets (cleanup_then (sendStopCommand s)))"
        using k l
        by (simp add: cleanup_then_def Let_def refs_ws_close sockets_ws_close_upd
              ws_close_closes ws_close_keeps_closed split: option.splits)
      with sendStopCommand_sends [OF Some o] Some True show ?thesis by simp
    next
      case False
      with Some have "\<not> ref_open (controlWsRef s) (sockets s)" by (simp add: ref_open_def)
      with Some False show ?thesis by (simp add: sendStopCommand_skips)
    qed
  qed
  from r cc cd tf idem stop disconnect_sent [of s] disconnect_quiet [of s]
    sendStopCommand_quiet [of s]
  show ?thesis by simp
qed

theorem disconnect_closes_without_stop_command_witness:
  "refs_valid (run (hook_init True) [ConnectCall Disconnected False False, OpenEvent 0, OpenEvent 1]) \<and>
   status (disconnect (run (hook_init True) [ConnectCall Disconnected False False, OpenEvent 0, OpenEvent 1]))
     = Disconnected \<and>
   map sent (sockets (disconnect
     (run (hook_init True) [ConnectCall Disconnected False False, OpenEvent 0, OpenEvent 1]))) = [[], []] \<and>
   disconnect (disconnect (run (hook_init True) [ConnectCall Disconnected False False, OpenEvent 0, OpenEvent 1]))
     = disconnect (run (hook_init True) [ConnectCall Disconnected False False, OpenEvent 0, OpenEvent 1])"
proof -
  let ?s = "run (hook_init True) [ConnectCall Disconnected False False, OpenEvent 0, OpenEvent 1]"
  have h: "refs_valid ?s"
    by (rule refs_valid_run [OF refs_valid_init])
  have m: "map sent (sockets ?s) = [[], []]"
    by (simp add: run_def hook_init_def connect_def ref_open_def new_WebSocket_def
          set_readyState_def data_onopen_def Let_def)
  from disconnect_closes_without_stop_command [OF h] m
  have "status (disconnect ?s) = Disconnected \<and>
        map sent (sockets (disconnect ?s)) = [[], []] \<and>
        disconnect (disconnect ?s) = disconnect ?s"
    by simp
  with h show ?thesis by blast
qed

subsection \<open>The connection status\<close>

text \<open>
  What each event does to the status: \<open>connect\<close> without an open socket gives
  \<open>connecting\<close>, the open event of a data socket gives \<open>connected\<close> and no other event
  does, an error event of either socket gives \<open>error\<close> with one more toast, and a close
  event gives \<open>disconnected\<close> only when the socket's handlers closed over another status
  than \<open>disconnected\<close>.
\<close>

lemma status_set_readyState: "status (set_readyState i r s) = status s"
  by (simp add: set_readyState_def)

lemma toasts_set_readyState: "toasts (set_readyState i r s) = toasts s"
  by (simp add: set_readyState_def)

lemma connect_status:
  "\<not> ref_open (wsRef s) (sockets s) \<Longrightarrow> \<not> ref_open (controlWsRef s) (sockets s) \<Longrightarrow>
   status (step s (ConnectCall st False False)) = Connecting"
  by (simp add: connect_opens)

lemma data_open_status:
  "i < length (sockets s) \<Longrightarrow> role (sockets s ! i) = Data \<Longrightarrow>
   status (step s (OpenEvent i)) = Connected"
  by (simp add: data_onopen_def)

lemma error_event_status:
  "i < length (sockets s) \<Longrightarrow>
   status (step s (ErrorEvent i)) = Error \<and>
   length (toasts (step s (ErrorEvent i))) = Suc (length (toasts s)) \<and>
   error (step s (ErrorEvent i)) \<noteq> None"
  by (simp add: control_onerror_def data_onerror_def toasts_set_readyState split: role.splits)

lemma close_event_status:
  "i < length (sockets s) \<Longrightarrow>
   status (step s (CloseEvent i)) =
     (if closure_status (sockets s ! i) \<noteq> Disconnected then Disconnected else status s)"
  by (simp add: onclose_def status_set_readyState)

lemma status_ws_close: "status (ws_close i s) = status s"
  by (simp add: ws_close_def status_set_readyState)

lemma status_onmessage: "status (onmessage parsed s) = status s"
  by (simp add: onmessage_def Let_def split: option.splits)

lemma status_timer_fired: "status (timer_fired s) = status s"
  by (simp add: timer_fired_def Let_def split: option.splits)

lemma status_sendStopCommand: "status (sendStopCommand s) = status s"
  by (simp add: sendStopCommand_def ws_send_def split: option.splits)

lemma status_cleanup_then: "status (cleanup_then s) = status s"
  by (simp add: cleanup_then_def Let_def status_ws_close split: option.splits)

lemma status_connect: "status (connect st a b s) \<noteq> Connected \<or> connect st a b s = s"
  by (simp add: connect_def Let_def)

lemma only_data_open_connects:
  assumes "status (step s e) = Connected" and "status s \<noteq> Connected"
  shows "\<exists>i. e = OpenEvent i \<and> i < length (sockets s) \<and> role (sockets s ! i) = Data"
proof (cases e)
  case (ConnectCall st a b)
  with assms status_connect [of st a b s] show ?thesis by auto
next
  case DisconnectCall
  with assms show ?thesis by (simp add: disconnect_refs)
next
  case UnmountCleanup
  with assms show ?thesis by (simp add: status_sendStopCommand)
next
  case UnmountThen
  with assms show ?thesis by (simp add: status_cleanup_then)
next
  case (OpenEvent i)
  with assms show ?thesis
    by (cases "role (sockets s ! i)") (auto simp: status_set_readyState split: if_splits)
next
  case (CloseEvent i)
  with assms show ?thesis
    by (auto simp: onclose_def status_set_readyState split: if_splits)
next
  case (ErrorEvent i)
  with assms show ?thesis
    by (cases "role (sockets s ! i)")
       (auto simp: control_onerror_def data_onerror_def split: if_splits)
next
  case (MessageEvent i parsed)
  with assms show ?thesis
    by (cases "role (sockets s ! i)") (auto simp: status_onmessage split: if_splits)
next
  case TimerExpired
  with assms show ?thesis by (simp add: status_timer_fired)
qed

text \<open>
  The closed-over status is that of the render, not the current one. Two calls of
  \<open>connect\<close> in one turn both read \<open>'disconnected'\<close>, so a close event of the second data
  socket leaves the status \<open>connected\<close>. After \<open>disconnect(); connect()\<close> in one turn of a
  connected client the new handlers read \<open>'connected'\<close>, so a close event of the new data
  socket sets the status to \<open>disconnected\<close>.
\<close>

lemma connect_twice_in_one_turn:
  "status (run (hook_init True)
     [ConnectCall Disconnected False False, ConnectCall Disconnected False False,
      OpenEvent 3, CloseEvent 3]) = Connected"
  by (simp add: run_def hook_init_def connect_def ref_open_def new_WebSocket_def
        set_readyState_def data_onopen_def onclose_def Let_def)

lemma disconnect_connect_in_one_turn:
  "status (run (hook_init True)
     [ConnectCall Disconnected False False, OpenEvent 0, OpenEvent 1, DisconnectCall,
      ConnectCall Connected False False, OpenEvent 3, CloseEvent 3]) = Disconnected"
  by (simp add: run_def hook_init_def connect_def ref_open_def new_WebSocket_def
        set_readyState_def data_onopen_def onclose_def disconnect_def ws_close_def Let_def)

text \<open>
  Claim C7 at a failing input. \<open>connect\<close> is called on the initial state, with the
  callback that the first render built, so the handlers of both sockets close over
  \<open>status = 'disconnected'\<close>. Both sockets open and the status
  becomes \<open>connected\<close>. When then the data socket closes, or the control socket, the
  guard \<open>status !== 'disconnected'\<close> of \<open>onclose\<close> reads the closed-over value, is false,
  and \<open>setStatus('disconnected')\<close> is skipped: the status stays \<open>connected\<close>.
\<close>

theorem close_event_leaves_status_connected:
  "status (run (hook_init True)
     [ConnectCall Disconnected False False, OpenEvent 0, OpenEvent 1]) = Connected \<and>
   status (run (hook_init True)
     [ConnectCall Disconnected False False, OpenEvent 0, OpenEvent 1, CloseEvent 1]) = Connected \<and>
   status (run (hook_init True)
     [ConnectCall Disconnected False False, OpenEvent 0, OpenEvent 1, CloseEvent 0]) = Connected \<and>
   status (run (hook_init True)
     [ConnectCall Disconnected False False, OpenEvent 0, OpenEvent 1, CloseEvent 1, CloseEvent 0]) = Connected"
  by (simp add: run_def hook_init_def connect_def ref_open_def new_WebSocket_def
        set_readyState_def data_onopen_def onclose_def Let_def)

end
